theory Spec2Isabelle
  imports Complex_Main "HOL-Library.Multiset" "HOL-Library.Log_Nat"
begin

section \<open>ScholarTrack: data model (types.ts)\<close>

text \<open>
  The records follow the interfaces \<^verbatim>\<open>Score\<close>, \<^verbatim>\<open>Subject\<close>, \<^verbatim>\<open>ViewState\<close> and
  \<^verbatim>\<open>AIInsight\<close>. Field names are the source's, except where HOL already owns the name:
  \<^verbatim>\<open>id\<close> becomes \<open>score_id\<close> / \<open>subject_id\<close>, \<^verbatim>\<open>value\<close> becomes \<open>score_value\<close>,
  \<^verbatim>\<open>max\<close> becomes \<open>score_max\<close> and \<^verbatim>\<open>notes\<close> becomes \<open>score_notes\<close>.

  A JavaScript \<^verbatim>\<open>number\<close> is an IEEE-754 double. Every finite double is a rational
  number, so a numeric field has the type \<open>rat\<close> and holds the double's exact value (the
  form's inputs advance in steps of one half, which doubles represent exactly). The
  arithmetic on them rounds: see \<open>double_round\<close> below. \<^verbatim>\<open>NaN\<close>, the infinities and the
  limits of the exponent range are outside this model. An optional field
  (\<^verbatim>\<open>notes?\<close>, and every field of \<^verbatim>\<open>Partial<Score>\<close>) is an \<open>option\<close>.
\<close>

record score =
  score_id :: string
  title :: string
  score_value :: rat
  score_max :: rat
  date :: string
  score_notes :: "string option"

record subject =
  subject_id :: string
  name :: string
  color :: string
  scores :: "score list"

datatype view_state = Dashboard | SubjectView string

record ai_insight =
  analysis :: string
  tips :: "string list"
  sentiment :: string

definition SUBJECT_COLORS :: "string list" where
  "SUBJECT_COLORS =
     [''bg-blue-500'', ''bg-emerald-500'', ''bg-violet-500'', ''bg-rose-500'',
      ''bg-amber-500'', ''bg-cyan-500'', ''bg-fuchsia-500'', ''bg-indigo-500'']"

section \<open>Derived metrics (App.tsx, lines 150 to 162)\<close>

text \<open>
  The operators \<^verbatim>\<open>+\<close>, \<^verbatim>\<open>/\<close> and \<^verbatim>\<open>*\<close> of JavaScript return the double nearest to the
  exact result, a tie going to the double whose last significand bit is even. A double
  has a significand of 53 bits: for \<open>2 ^ e \<le> \<bar>x\<bar> < 2 ^ (e + 1)\<close> the doubles around \<open>x\<close>
  are the multiples of \<open>2 ^ (e - 52)\<close>. \<open>binade\<close> computes that \<open>e\<close> from the bit lengths
  of numerator and denominator. The exponent is not bounded here: overflow and
  subnormal numbers do not occur with the magnitudes of scores.
\<close>

definition pow2 :: "int \<Rightarrow> rat" where
  "pow2 k = (if 0 \<le> k then 2 ^ nat k else 1 / 2 ^ nat (- k))"

definition roundTiesToEven :: "rat \<Rightarrow> int" where
  "roundTiesToEven m =
     (let f = \<lfloor>m\<rfloor>; d = m - of_int f
      in if d < 1 / 2 then f
         else if 1 / 2 < d then f + 1
         else if even f then f else f + 1)"

definition binade :: "rat \<Rightarrow> int" where
  "binade a =
     (let (p, q) = quotient_of a; k = bitlen p - bitlen q
      in if pow2 k \<le> a then k else k - 1)"

definition double_round :: "rat \<Rightarrow> rat" where
  "double_round x =
     (if x = 0 then 0
      else
        let ulp = pow2 (binade \<bar>x\<bar> - 52)
        in sgn x * of_int (roundTiesToEven (\<bar>x\<bar> / ulp)) * ulp)"

text \<open>
  \<^verbatim>\<open>Math.round\<close> returns the integer nearest to its argument, a tie going to the larger
  one. It is exact on every double: the floor of the argument plus one half, taken in
  exact arithmetic. Its result is integral, so the model gives it the type \<open>int\<close>.
\<close>

definition Math_round :: "rat \<Rightarrow> int" where
  "Math_round x = \<lfloor>x + 1 / 2\<rfloor>"

text \<open>
  \<^verbatim>\<open>
  const calculateSubjectAverage = (subject: Subject) => {
    if (subject.scores.length === 0) return 0;
    const totalMax = subject.scores.reduce((sum, s) => sum + s.max, 0);
    const totalScore = subject.scores.reduce((sum, s) => sum + s.value, 0);
    return totalMax > 0 ? Math.round((totalScore / totalMax) * 100) : 0;
  };
  \<close>
  \<^verbatim>\<open>reduce\<close> with an initial value is a left fold. Each addition, the division and
  the multiplication round their result to a double, in the order the source applies
  them: the quotient is rounded before it is multiplied by 100.
\<close>

definition calculateSubjectAverage :: "subject \<Rightarrow> int" where
  "calculateSubjectAverage subj =
     (if length (scores subj) = 0 then 0
      else
        let totalMax = foldl (\<lambda>sum s. double_round (sum + score_max s)) 0 (scores subj);
            totalScore = foldl (\<lambda>sum s. double_round (sum + score_value s)) 0 (scores subj)
        in if totalMax > 0
           then Math_round (double_round (double_round (totalScore / totalMax) * 100))
           else 0)"



section \<open>The store and its handlers (App.tsx, lines 59 to 148)\<close>

text \<open>
  The component's state hooks, as one record. \<^verbatim>\<open>newScore\<close> is a \<^verbatim>\<open>Partial<Score>\<close>: every
  field may be absent (its \<^verbatim>\<open>id\<close> is never set by the form and is left out). The effect
  hook that writes \<open>subjects\<close> to local storage after every change reads the state and
  does not alter it, so it is not part of the model.
\<close>

record partial_score =
  p_title :: "string option"
  p_value :: "rat option"
  p_max :: "rat option"
  p_date :: "string option"
  p_notes :: "string option"

record app_state =
  subjects :: "subject list"
  view :: view_state
  isAddSubjectModalOpen :: bool
  isAddScoreModalOpen :: bool
  aiInsight :: "ai_insight option"
  isAiLoading :: bool
  newSubjectName :: string
  newScore :: partial_score

text \<open>
  \<^verbatim>\<open>String.prototype.trim\<close> removes white space and line terminators from both ends.
  A HOL character is one byte, read here as a Latin-1 code unit: tab, line feed,
  vertical tab, form feed, carriage return, space and the no-break space. The white
  space of Unicode beyond Latin-1 cannot occur in a \<open>string\<close>.
\<close>

definition isWhiteSpace :: "char \<Rightarrow> bool" where
  "isWhiteSpace c = (of_char c \<in> {9, 10, 11, 12, 13, 32, 160 :: nat})"

definition trim :: "string \<Rightarrow> string" where
  "trim s = rev (dropWhile isWhiteSpace (rev (dropWhile isWhiteSpace s)))"

text \<open>
  \<^verbatim>\<open>
  const handleAddSubject = (e: React.FormEvent) => {
    e.preventDefault();
    if (!newSubjectName.trim()) return;
    const color = SUBJECT_COLORS[subjects.length % SUBJECT_COLORS.length];
    const newSubject: Subject = { id: crypto.randomUUID(), name: newSubjectName, color, scores: [] };
    setSubjects([...subjects, newSubject]);
    setNewSubjectName('');
    setIsAddSubjectModalOpen(false);
  };
  \<close>
  The identifier drawn by \<^verbatim>\<open>crypto.randomUUID()\<close> is an argument. A string is falsy
  exactly when it is empty. The index is below the palette's length, so \<open>!\<close> reads
  inside the list.
\<close>

definition handleAddSubject :: "string \<Rightarrow> app_state \<Rightarrow> app_state" where
  "handleAddSubject uuid st =
     (if trim (newSubjectName st) = [] then st
      else
        let color = SUBJECT_COLORS ! (length (subjects st) mod length SUBJECT_COLORS);
            newSubject = \<lparr>subject_id = uuid, name = newSubjectName st, color = color, scores = []\<rparr>
        in st\<lparr>subjects := subjects st @ [newSubject],
               newSubjectName := [],
               isAddSubjectModalOpen := False\<rparr>)"

text \<open>
  \<^verbatim>\<open>
  const handleDeleteSubject = (id: string) => {
    if (confirm('Are you sure you want to delete this subject and all its scores?')) {
      setSubjects(subjects.filter(s => s.id !== id));
      if (view.type === 'subject' && view.subjectId === id) {
        setView({ type: 'dashboard' });
      }
    }
  };
  \<close>
  The user's answer to the \<^verbatim>\<open>confirm\<close> dialog is the argument \<open>confirmed\<close>.
\<close>

definition handleDeleteSubject :: "bool \<Rightarrow> string \<Rightarrow> app_state \<Rightarrow> app_state" where
  "handleDeleteSubject confirmed ident st =
     (if confirmed then
        let st' = st\<lparr>subjects := filter (\<lambda>s. subject_id s \<noteq> ident) (subjects st)\<rparr>
        in (case view st of
              SubjectView subjectId \<Rightarrow> if subjectId = ident then st'\<lparr>view := Dashboard\<rparr> else st'
            | Dashboard \<Rightarrow> st')
      else st)"

text \<open>
  \<^verbatim>\<open>
  const handleAddScore = (e: React.FormEvent) => {
    e.preventDefault();
    if (view.type !== 'subject') return;
    if (!newScore.title || newScore.value === undefined || newScore.max === undefined) return;
    const score: Score = {
      id: crypto.randomUUID(), title: newScore.title,
      value: Number(newScore.value), max: Number(newScore.max),
      date: newScore.date || new Date().toISOString().split('T')[0],
      notes: newScore.notes
    };
    setSubjects(subjects.map(s => {
      if (s.id === view.subjectId) { return { ...s, scores: [...s.scores, score] }; }
      return s;
    }));
    setNewScore({ date: new Date().toISOString().split('T')[0] });
    setIsAddScoreModalOpen(false);
  };
  \<close>
  The fresh identifier and today's date are arguments. \<^verbatim>\<open>Number\<close> applied to a number
  returns it.
\<close>

definition handleAddScore :: "string \<Rightarrow> string \<Rightarrow> app_state \<Rightarrow> app_state" where
  "handleAddScore uuid today st =
     (case view st of
        Dashboard \<Rightarrow> st
      | SubjectView subjectId \<Rightarrow>
          (case (p_title (newScore st), p_value (newScore st), p_max (newScore st)) of
             (Some t, Some v, Some m) \<Rightarrow>
               if t = [] then st
               else
                 let score = \<lparr>score_id = uuid, title = t, score_value = v, score_max = m,
                              date = (case p_date (newScore st) of
                                        None \<Rightarrow> today
                                      | Some d \<Rightarrow> if d = [] then today else d),
                              score_notes = p_notes (newScore st)\<rparr>
                 in st\<lparr>subjects :=
                          map (\<lambda>s. if subject_id s = subjectId
                                    then s\<lparr>scores := scores s @ [score]\<rparr> else s) (subjects st),
                        newScore := \<lparr>p_title = None, p_value = None, p_max = None,
                                      p_date = Some today, p_notes = None\<rparr>,
                        isAddScoreModalOpen := False\<rparr>
           | _ \<Rightarrow> st))"

text \<open>
  \<^verbatim>\<open>
  const handleDeleteScore = (subjectId: string, scoreId: string) => {
    setSubjects(subjects.map(s => {
      if (s.id === subjectId) {
        return { ...s, scores: s.scores.filter(sc => sc.id !== scoreId) };
      }
      return s;
    }));
  };
  \<close>
\<close>

definition handleDeleteScore :: "string \<Rightarrow> string \<Rightarrow> app_state \<Rightarrow> app_state" where
  "handleDeleteScore subjectId scoreId st =
     st\<lparr>subjects :=
          map (\<lambda>s. if subject_id s = subjectId
                    then s\<lparr>scores := filter (\<lambda>sc. score_id sc \<noteq> scoreId) (scores s)\<rparr>
                    else s) (subjects st)\<rparr>"

text \<open>
  \<^verbatim>\<open>
  const activeSubject = view.type === 'subject' ? subjects.find(s => s.id === view.subjectId) : null;
  \<close>
\<close>

definition activeSubject :: "app_state \<Rightarrow> subject option" where
  "activeSubject st =
     (case view st of
        SubjectView subjectId \<Rightarrow> find (\<lambda>s. subject_id s = subjectId) (subjects st)
      | Dashboard \<Rightarrow> None)"

section \<open>The score history of the detail view (App.tsx, lines 316 to 323)\<close>

text \<open>
  \<^verbatim>\<open>Array.prototype.sort\<close> with a comparator is a stable sort: an element stays before
  another one unless the comparator gives a positive number for the pair. The model is
  the stable insertion sort. For a comparator that is not a consistent ordering the
  language leaves the result to the implementation; the comparator used here is a
  difference of numbers, which is consistent.
\<close>

fun insert_by :: "('a \<Rightarrow> 'a \<Rightarrow> int) \<Rightarrow> 'a \<Rightarrow> 'a list \<Rightarrow> 'a list" where
  "insert_by cmp x [] = [x]"
| "insert_by cmp x (y # ys) = (if cmp x y \<le> 0 then x # y # ys else y # insert_by cmp x ys)"

definition Array_sort :: "('a \<Rightarrow> 'a \<Rightarrow> int) \<Rightarrow> 'a list \<Rightarrow> 'a list" where
  "Array_sort cmp xs = foldr (insert_by cmp) xs []"

text \<open>
  \<^verbatim>\<open>
  activeSubject.scores.length === 0 ? (<div> No scores added yet. </div>) : (
    [...activeSubject.scores]
      .sort((a, b) => new Date(b.date).getTime() - new Date(a.date).getTime())
      .map(score => <div key={score.id}> ... </div>))
  \<close>
  \<open>getTime d\<close> stands for \<^verbatim>\<open>new Date(d).getTime()\<close>, the time stamp in milliseconds
  of the calendar date written in \<open>d\<close>; the date input of the form yields well-formed
  dates only, and the \<^verbatim>\<open>NaN\<close> of a malformed one is outside the model. The function
  returns the scores in the order of the rows on the screen; no score gives no row.
\<close>

definition renderScoreHistory :: "(string \<Rightarrow> int) \<Rightarrow> subject \<Rightarrow> score list" where
  "renderScoreHistory getTime subj =
     (if length (scores subj) = 0 then []
      else Array_sort (\<lambda>a b. getTime (date b) - getTime (date a)) (scores subj))"

section \<open>The insight requester (services/geminiService.ts)\<close>

text \<open>
  What the module reads from its surroundings is a record: the credential
  \<^verbatim>\<open>process.env.API_KEY || ''\<close>, the remote call \<^verbatim>\<open>ai.models.generateContent\<close>, which is
  rejected with an error or answers with a response whose \<^verbatim>\<open>text\<close> may be absent, and
  \<^verbatim>\<open>JSON.parse\<close>, which throws on text that is not JSON. The only part of the prompt
  that varies is the serialised summary of the subjects, so a prompt is that summary.
\<close>

datatype js_error = ApiError string | Error string | SyntaxError string

record score_summary =
  sum_title :: string
  sum_score :: rat
  sum_max :: rat
  sum_date :: string

record subject_summary =
  sum_name :: string
  sum_scores :: "score_summary list"

datatype prompt = Prompt "subject_summary list"

record gemini_env =
  apiKey :: string
  generateContent :: "prompt \<Rightarrow> js_error + string option"
  JSON_parse :: "string \<Rightarrow> js_error + ai_insight"

definition api_key_missing_insight :: ai_insight where
  "api_key_missing_insight =
     \<lparr>analysis = ''API Key not configured. Please check your environment settings.'',
      tips = [''Configure API Key to see insights.''],
      sentiment = ''neutral''\<rparr>"

definition no_data_insight :: ai_insight where
  "no_data_insight =
     \<lparr>analysis = ''No data available yet. Add some subjects and scores to get started!'',
      tips = [''Add a subject like 'Mathematics' or 'History'.'', ''Log your latest quiz results.''],
      sentiment = ''neutral''\<rparr>"

definition fallback_insight :: ai_insight where
  "fallback_insight =
     \<lparr>analysis = ''Sorry, I couldn't analyze your data at the moment. Please try again later.'',
      tips = [''Check your internet connection.'', ''Ensure your API key is valid.''],
      sentiment = ''neutral''\<rparr>"

text \<open>
  The body of the \<^verbatim>\<open>try\<close> block (lines 51 to 73): the awaited call, the check
  \<^verbatim>\<open>if (!text) throw new Error("No response from AI")\<close>, and the parse. \<open>Inl\<close> is a
  thrown error.
\<close>

definition tryRequest :: "gemini_env \<Rightarrow> prompt \<Rightarrow> js_error + ai_insight" where
  "tryRequest env p =
     (case generateContent env p of
        Inl e \<Rightarrow> Inl e
      | Inr None \<Rightarrow> Inl (Error ''No response from AI'')
      | Inr (Some text) \<Rightarrow>
          if text = [] then Inl (Error ''No response from AI'') else JSON_parse env text)"

text \<open>
  \<^verbatim>\<open>generateAcademicInsight\<close> (lines 7 to 83). The result is how the promise settles
  (\<open>Inl\<close>: rejected with an error, \<open>Inr\<close>: fulfilled with an insight) together with the
  prompts sent to the service, in order. The \<^verbatim>\<open>catch\<close> clause turns every error of the
  \<^verbatim>\<open>try\<close> block into the fallback.
\<close>

definition generateAcademicInsight ::
  "gemini_env \<Rightarrow> subject list \<Rightarrow> (js_error + ai_insight) \<times> prompt list" where
  "generateAcademicInsight env subjs =
     (if apiKey env = [] then (Inr api_key_missing_insight, [])
      else
        let activeSubjects =
              map (\<lambda>s. \<lparr>sum_name = name s,
                        sum_scores = map (\<lambda>sc. \<lparr>sum_title = title sc, sum_score = score_value sc,
                                                sum_max = score_max sc, sum_date = date sc\<rparr>)
                                         (scores s)\<rparr>)
                  (filter (\<lambda>s. length (scores s) > 0) subjs)
        in if length activeSubjects = 0 then (Inr no_data_insight, [])
           else
             let p = Prompt activeSubjects
             in (case tryRequest env p of
                   Inr insight \<Rightarrow> Inr insight
                 | Inl error \<Rightarrow> Inr fallback_insight,
                 [p]))"

section \<open>Concrete stores for the examples\<close>

definition mk_score :: "string \<Rightarrow> rat \<Rightarrow> rat \<Rightarrow> string \<Rightarrow> score" where
  "mk_score i v m d =
     \<lparr>score_id = i, title = ''Quiz'', score_value = v, score_max = m, date = d, score_notes = None\<rparr>"

definition mk_subject :: "string \<Rightarrow> score list \<Rightarrow> subject" where
  "mk_subject i scs = \<lparr>subject_id = i, name = ''Subject'', color = ''bg-blue-500'', scores = scs\<rparr>"

definition math_subject :: subject where
  "math_subject =
     \<lparr>subject_id = ''s0'', name = ''Math'', color = ''bg-blue-500'',
      scores = [mk_score ''a'' 80 100 ''2024-01-02'', mk_score ''b'' 45 50 ''2024-01-03'']\<rparr>"

text \<open>A subject whose only score is 23 out of 40, that is 57.5 per cent.\<close>

definition tie_subject :: subject where
  "tie_subject = mk_subject ''s4'' [mk_score ''t'' 23 40 ''2024-01-02'']"

definition three_subjects :: "subject list" where
  "three_subjects =
     [mk_subject ''s1'' [mk_score ''a'' 80 100 ''2024-01-02''],
      mk_subject ''s2'' [mk_score ''b'' 30 50 ''2024-01-03''],
      mk_subject ''s3'' []]"

definition detail_state :: app_state where
  "detail_state =
     \<lparr>subjects = three_subjects, view = SubjectView ''s2'',
      isAddSubjectModalOpen = True, isAddScoreModalOpen = True,
      aiInsight = None, isAiLoading = False,
      newSubjectName = '' Physics'',
      newScore = \<lparr>p_title = Some ''Midterm'', p_value = Some 17, p_max = Some 20,
                   p_date = Some ''2024-02-01'', p_notes = None\<rparr>\<rparr>"

definition blank_name_state :: app_state where
  "blank_name_state = detail_state\<lparr>newSubjectName := ''   ''\<rparr>"

definition unordered_subject :: subject where
  "unordered_subject =
     mk_subject ''s5'' [mk_score ''a'' 7 10 ''2024-01-15'', mk_score ''b'' 8 10 ''2024-03-01'',
                        mk_score ''c'' 9 10 ''2023-12-31'']"

text \<open>
  A stand-in for \<^verbatim>\<open>new Date(d).getTime()\<close> in the examples: the digits of an ISO date
  \<^verbatim>\<open>YYYY-MM-DD\<close> read as one number, which orders well-formed dates as the calendar does.
\<close>

definition iso_day_number :: "string \<Rightarrow> int" where
  "iso_day_number d =
     foldl (\<lambda>n c. if (48::nat) \<le> of_char c \<and> of_char c \<le> (57::nat)
                  then 10 * n + (of_char c - 48) else n) 0 d"

text \<open>Surroundings of the insight requester: no credential, and three ways to fail.\<close>

definition offline_service :: "prompt \<Rightarrow> js_error + string option" where
  "offline_service p = Inl (ApiError ''fetch failed'')"

definition silent_service :: "prompt \<Rightarrow> js_error + string option" where
  "silent_service p = Inr None"

definition garbled_service :: "prompt \<Rightarrow> js_error + string option" where
  "garbled_service p = Inr (Some ''<html>'')"

definition rejecting_parse :: "string \<Rightarrow> js_error + ai_insight" where
  "rejecting_parse text = Inl (SyntaxError ''Unexpected token'')"

definition env_no_key :: gemini_env where
  "env_no_key = \<lparr>apiKey = [], generateContent = offline_service, JSON_parse = rejecting_parse\<rparr>"

definition env_offline :: gemini_env where
  "env_offline = \<lparr>apiKey = ''k'', generateContent = offline_service, JSON_parse = rejecting_parse\<rparr>"

definition env_silent :: gemini_env where
  "env_silent = \<lparr>apiKey = ''k'', generateContent = silent_service, JSON_parse = rejecting_parse\<rparr>"

definition env_garbled :: gemini_env where
  "env_garbled = \<lparr>apiKey = ''k'', generateContent = garbled_service, JSON_parse = rejecting_parse\<rparr>"

text \<open>The prompt that \<open>three_subjects\<close> gives rise to: the two subjects that have scores.\<close>

definition sent_prompt :: prompt where
  "sent_prompt =
     Prompt [\<lparr>sum_name = ''Subject'',
              sum_scores = [\<lparr>sum_title = ''Quiz'', sum_score = 80, sum_max = 100,
                             sum_date = ''2024-01-02''\<rparr>]\<rparr>,
             \<lparr>sum_name = ''Subject'',
              sum_scores = [\<lparr>sum_title = ''Quiz'', sum_score = 30, sum_max = 50,
                             sum_date = ''2024-01-03''\<rparr>]\<rparr>]"

section \<open>Properties of the derived metrics\<close>

subsection \<open>The rounding of doubles\<close>

lemma pow2_powi: "pow2 k = 2 powi k"
  by (simp add: pow2_def power_int_def inverse_eq_divide power_one_over)

lemma pow2_pos: "0 < pow2 k"
  by (simp add: pow2_powi)

lemma pow2_add: "pow2 (i + j) = pow2 i * pow2 j"
  by (simp add: pow2_powi power_int_add)

lemma pow2_Suc: "pow2 (k + 1) = 2 * pow2 k"
  by (simp add: pow2_add) (simp add: pow2_def)

lemma pow2_nat: "0 \<le> k \<Longrightarrow> pow2 k = 2 ^ nat k"
  by (simp add: pow2_def)

text \<open>\<open>binade\<close> finds the power of two at or below a positive number.\<close>

lemma binade_bounds:
  assumes "0 < a"
  shows "pow2 (binade a) \<le> a \<and> a < pow2 (binade a + 1)"
proof -
  obtain p q where pq: "quotient_of a = (p, q)"
    by (cases "quotient_of a")
  then have q: "0 < q" and a: "a = of_int p / of_int q"
    by (simp_all add: quotient_of_denom_pos quotient_of_div)
  with assms have p: "0 < p"
    by (simp add: zero_less_divide_iff)
  let ?k = "bitlen p - bitlen q"
  have lp: "1 \<le> bitlen p" and lq: "1 \<le> bitlen q"
    using p q by (simp_all add: bitlen_alt_def)
  have "rat_of_int (2 ^ nat (bitlen p - 1)) \<le> of_int p"
    "rat_of_int p < of_int (2 ^ nat (bitlen p))"
    using bitlen_bounds [OF p] by (simp_all only: of_int_le_iff of_int_less_iff)
  then have bp: "pow2 (bitlen p - 1) \<le> of_int p" "of_int p < pow2 (bitlen p)"
    using lp by (simp_all add: pow2_nat)
  have "rat_of_int (2 ^ nat (bitlen q - 1)) \<le> of_int q"
    "rat_of_int q < of_int (2 ^ nat (bitlen q))"
    using bitlen_bounds [OF q] by (simp_all only: of_int_le_iff of_int_less_iff)
  then have bq: "pow2 (bitlen q - 1) \<le> of_int q" "of_int q < pow2 (bitlen q)"
    using lq by (simp_all add: pow2_nat)
  have qpos: "(0::rat) < of_int q"
    using q by simp
  have low: "pow2 (?k - 1) \<le> a"
  proof -
    have "pow2 (?k - 1) * of_int q \<le> pow2 (?k - 1) * pow2 (bitlen q)"
      using bq(2) pow2_pos [of "?k - 1"] by (simp add: less_imp_le)
    also have "\<dots> = pow2 (bitlen p - 1)"
      by (simp flip: pow2_add)
    also have "\<dots> \<le> of_int p"
      by (rule bp(1))
    finally show ?thesis
      using qpos by (simp add: a pos_le_divide_eq)
  qed
  have high: "a < pow2 (?k + 1)"
  proof -
    have "of_int p < pow2 (bitlen p)"
      by (rule bp(2))
    also have "\<dots> = pow2 (?k + 1) * pow2 (bitlen q - 1)"
      by (simp flip: pow2_add)
    also have "\<dots> \<le> pow2 (?k + 1) * of_int q"
      using bq(1) pow2_pos [of "?k + 1"] by simp
    finally show ?thesis
      using qpos by (simp add: a pos_divide_less_eq)
  qed
  show ?thesis
  proof (cases "pow2 ?k \<le> a")
    case True
    then have "binade a = ?k"
      by (simp add: binade_def pq)
    with True high show ?thesis
      by simp
  next
    case False
    then have "binade a = ?k - 1"
      by (simp add: binade_def pq)
    with False low show ?thesis
      by simp
  qed
qed

lemma roundTiesToEven_error: "\<bar>of_int (roundTiesToEven m) - m\<bar> \<le> 1 / 2"
proof -
  have "of_int \<lfloor>m\<rfloor> \<le> m" "m < of_int \<lfloor>m\<rfloor> + 1"
    by linarith+
  then show ?thesis
    by (auto simp: roundTiesToEven_def Let_def abs_le_iff)
qed

text \<open>A rounded number is within half a unit in the last place of the exact one.\<close>

lemma double_round_error:
  assumes "x \<noteq> 0"
  shows "\<bar>double_round x - x\<bar> \<le> pow2 (binade \<bar>x\<bar> - 53)"
proof -
  let ?ulp = "pow2 (binade \<bar>x\<bar> - 52)"
  let ?n = "roundTiesToEven (\<bar>x\<bar> / ?ulp)"
  have ulp: "0 < ?ulp"
    by (rule pow2_pos)
  have "double_round x - x = sgn x * (of_int ?n * ?ulp - \<bar>x\<bar>)"
    using assms by (simp add: double_round_def Let_def algebra_simps flip: mult_sgn_abs)
       (metis mult.commute mult_sgn_abs)
  then have "\<bar>double_round x - x\<bar> = \<bar>of_int ?n * ?ulp - \<bar>x\<bar>\<bar>"
    using assms by (simp add: abs_mult abs_sgn_eq)
  also have "\<dots> = \<bar>(of_int ?n - \<bar>x\<bar> / ?ulp) * ?ulp\<bar>"
    using ulp by (simp add: left_diff_distrib)
  also have "\<dots> = \<bar>of_int ?n - \<bar>x\<bar> / ?ulp\<bar> * ?ulp"
    using ulp by (simp only: abs_mult abs_of_pos)
  also have "\<dots> \<le> 1 / 2 * ?ulp"
    using roundTiesToEven_error [of "\<bar>x\<bar> / ?ulp"] ulp by (intro mult_right_mono) simp_all
  also have "\<dots> = pow2 (binade \<bar>x\<bar> - 53)"
    using pow2_Suc [of "binade \<bar>x\<bar> - 53"] by simp
  finally show ?thesis .
qed

lemma roundTiesToEven_between: "\<lfloor>m\<rfloor> \<le> roundTiesToEven m \<and> roundTiesToEven m \<le> \<lfloor>m\<rfloor> + 1"
  by (simp add: roundTiesToEven_def Let_def)

text \<open>A rounded number has a significand of 53 bits in the binade of the exact one.\<close>

lemma double_round_significand:
  assumes "x \<noteq> 0"
  shows "\<bar>double_round x\<bar> =
           of_int (roundTiesToEven (\<bar>x\<bar> / pow2 (binade \<bar>x\<bar> - 52))) * pow2 (binade \<bar>x\<bar> - 52)
         \<and> 2 ^ 52 \<le> roundTiesToEven (\<bar>x\<bar> / pow2 (binade \<bar>x\<bar> - 52))
         \<and> roundTiesToEven (\<bar>x\<bar> / pow2 (binade \<bar>x\<bar> - 52)) \<le> 2 ^ 53"
proof -
  let ?e = "binade \<bar>x\<bar>"
  let ?ulp = "pow2 (?e - 52)"
  let ?m = "\<bar>x\<bar> / ?ulp"
  have ulp: "0 < ?ulp"
    by (rule pow2_pos)
  from assms binade_bounds [of "\<bar>x\<bar>"] have b: "pow2 ?e \<le> \<bar>x\<bar>" "\<bar>x\<bar> < pow2 (?e + 1)"
    by simp_all
  have c: "pow2 52 = 2 ^ 52" "pow2 53 = 2 ^ 53"
    by (simp_all add: pow2_def)
  have "52 + (?e - 52) = ?e" "53 + (?e - 52) = ?e + 1"
    by simp_all
  with pow2_add [of 52 "?e - 52"] pow2_add [of 53 "?e - 52"]
  have e: "pow2 ?e = 2 ^ 52 * ?ulp" "pow2 (?e + 1) = 2 ^ 53 * ?ulp"
    by (simp_all only: c)
  have lo: "2 ^ 52 \<le> ?m"
    using b(1) ulp by (simp add: e pos_le_divide_eq)
  have hi: "?m < 2 ^ 53"
    using b(2) ulp by (simp add: e pos_divide_less_eq)
  have "(2::int) ^ 52 \<le> \<lfloor>?m\<rfloor>"
    using lo by (simp add: le_floor_iff)
  moreover have "\<lfloor>?m\<rfloor> + 1 \<le> (2::int) ^ 53"
    using hi by (simp add: floor_less_iff flip: zless_iff_Suc_zadd) 
  ultimately have n: "2 ^ 52 \<le> roundTiesToEven ?m" "roundTiesToEven ?m \<le> 2 ^ 53"
    using roundTiesToEven_between [of ?m] by linarith+
  then have "0 \<le> rat_of_int (roundTiesToEven ?m)"
    by simp
  then have "\<bar>double_round x\<bar> = of_int (roundTiesToEven ?m) * ?ulp"
    using assms ulp by (simp add: double_round_def Let_def abs_mult abs_sgn_eq less_imp_le)
  with n show ?thesis
    by simp
qed

text \<open>
  The doubles the model computes are those of the language: 23 / 40 is the double
  2589569785738035 / 2 ^ 52, and its product with 100 is the double below 57.5.
\<close>

lemma double_round_23_40:
  "double_round (23 / 40) = 2589569785738035 / 4503599627370496
   \<and> double_round (2589569785738035 / 4503599627370496 * 100) =
       8092405580431359 / 140737488355328"
  by code_simp

subsection \<open>The average of a subject\<close>

lemma calculateSubjectAverage_no_scores: "scores subj = [] \<Longrightarrow> calculateSubjectAverage subj = 0"
  by (simp add: calculateSubjectAverage_def)

lemma calculateSubjectAverage_math_subject: "calculateSubjectAverage math_subject = 83"
  by code_simp

text \<open>
  Claim C1 says that the average of a subject with scores is 100 times the sum of the
  values over the sum of the maxima, rounded. For the single score 23 out of 40 that
  number is 57.5, which rounds to 58. The code divides first: the double nearest to
  23 / 40 lies below it, the product with 100 is the double 57.49999999999999, and
  \<^verbatim>\<open>Math.round\<close> returns 57.
\<close>

theorem calculateSubjectAverage_tie_rounds_down:
  "scores tie_subject \<noteq> []
   \<and> 0 < sum_list (map score_max (scores tie_subject))
   \<and> round (100 * sum_list (map score_value (scores tie_subject))
               / sum_list (map score_max (scores tie_subject))) = 58
   \<and> calculateSubjectAverage tie_subject = 57"
proof -
  have "calculateSubjectAverage tie_subject = 57"
    by code_simp
  moreover have "round (100 * 23 / 40 :: rat) = 58"
    by (simp add: round_def)
  ultimately show ?thesis
    by (simp add: tie_subject_def mk_subject_def mk_score_def)
qed

subsection \<open>The overall average\<close>







section \<open>Properties of the store\<close>

lemma dropWhile_all_iff: "(\<forall>x \<in> set (dropWhile P xs). P x) \<longleftrightarrow> (\<forall>x \<in> set xs. P x)"
  by (induction xs) auto

lemma trim_eq_Nil_iff: "trim s = [] \<longleftrightarrow> (\<forall>c \<in> set s. isWhiteSpace c)"
  by (simp add: trim_def dropWhile_all_iff)

text \<open>
  Claim C7. When the name typed has a character that is not white space, adding a
  subject appends one subject to the list: its colour is the palette entry at the
  index (number of subjects so far) modulo (length of the palette), which is inside
  the palette, its score list is empty, and the subjects already there keep their
  places and their contents.
\<close>

theorem handleAddSubject_appends:
  assumes "\<exists>c \<in> set (newSubjectName st). \<not> isWhiteSpace c"
  shows "subjects (handleAddSubject uuid st) =
           subjects st @ [\<lparr>subject_id = uuid, name = newSubjectName st,
                            color = SUBJECT_COLORS ! (length (subjects st) mod length SUBJECT_COLORS),
                            scores = []\<rparr>]
         \<and> length (subjects st) mod length SUBJECT_COLORS < length SUBJECT_COLORS
         \<and> (\<forall>i < length (subjects st). subjects (handleAddSubject uuid st) ! i = subjects st ! i)"
proof -
  from assms have "trim (newSubjectName st) \<noteq> []"
    by (simp add: trim_eq_Nil_iff)
  then have "subjects (handleAddSubject uuid st) =
           subjects st @ [\<lparr>subject_id = uuid, name = newSubjectName st,
                            color = SUBJECT_COLORS ! (length (subjects st) mod length SUBJECT_COLORS),
                            scores = []\<rparr>]"
    by (simp add: handleAddSubject_def Let_def)
  moreover have "length (subjects st) mod length SUBJECT_COLORS < length SUBJECT_COLORS"
    by (simp add: SUBJECT_COLORS_def)
  ultimately show ?thesis
    by (simp add: nth_append)
qed

theorem handleAddSubject_appends_witness:
  "newSubjectName detail_state = '' Physics''
   \<and> subjects (handleAddSubject ''u4'' detail_state) =
       three_subjects @ [\<lparr>subject_id = ''u4'', name = '' Physics'', color = ''bg-rose-500'', scores = []\<rparr>]"
proof -
  have h: "\<exists>c \<in> set (newSubjectName detail_state). \<not> isWhiteSpace c"
    by (simp add: detail_state_def isWhiteSpace_def)
  have "SUBJECT_COLORS ! (length three_subjects mod length SUBJECT_COLORS) = ''bg-rose-500''"
    by (simp add: SUBJECT_COLORS_def three_subjects_def)
  with handleAddSubject_appends [OF h, of "''u4''"] show ?thesis
    by (simp add: detail_state_def)
qed

text \<open>
  Claim C8. When every character of the name typed is white space (the empty name
  included), the add-subject handler returns the state it was given: the subject list
  is the same, and the handler has no path that raises.
\<close>

theorem handleAddSubject_blank_ignored:
  assumes "\<forall>c \<in> set (newSubjectName st). isWhiteSpace c"
  shows "handleAddSubject uuid st = st"
  using assms by (simp add: handleAddSubject_def trim_eq_Nil_iff)

theorem handleAddSubject_blank_ignored_witness:
  "newSubjectName blank_name_state = ''   ''
   \<and> subjects (handleAddSubject ''u4'' blank_name_state) = three_subjects
   \<and> handleAddSubject ''u5'' (detail_state\<lparr>newSubjectName := []\<rparr>) = detail_state\<lparr>newSubjectName := []\<rparr>"
proof -
  have h: "\<forall>c \<in> set (newSubjectName blank_name_state). isWhiteSpace c"
    by (simp add: blank_name_state_def isWhiteSpace_def)
  have e: "\<forall>c \<in> set (newSubjectName (detail_state\<lparr>newSubjectName := []\<rparr>)). isWhiteSpace c"
    by simp
  from handleAddSubject_blank_ignored [OF h, of "''u4''"]
    handleAddSubject_blank_ignored [OF e, of "''u5''"]
  show ?thesis
    by (simp add: blank_name_state_def detail_state_def)
qed

lemma subjects_handleDeleteSubject:
  "subjects (handleDeleteSubject True ident st) = filter (\<lambda>s. subject_id s \<noteq> ident) (subjects st)"
  by (simp add: handleDeleteSubject_def Let_def split: view_state.split)

lemma view_handleDeleteSubject:
  "view (handleDeleteSubject True ident st) =
     (if view st = SubjectView ident then Dashboard else view st)"
  by (simp add: handleDeleteSubject_def Let_def split: view_state.split)

lemma mset_concat_partition:
  "mset (concat (map f xs)) =
     mset (concat (map f (filter (\<lambda>x. \<not> P x) xs))) + mset (concat (map f (filter P xs)))"
  by (induction xs) simp_all

lemma find_filter_None: "find P (filter (\<lambda>x. \<not> P x) xs) = None"
  by (simp add: find_None_iff)

text \<open>
  Claim C5. After a confirmed deletion of the subject \<open>ident\<close> no subject of the store
  has that identifier, and a look-up by it finds nothing; the scores of the store are
  those that remain together with those of the deleted subject, so the deleted subject's
  scores left with it; every other subject is still there. If the detail view showed the
  deleted subject the view is the dashboard afterwards and no subject is active; any
  other view is kept. Without confirmation nothing changes.
\<close>

theorem handleDeleteSubject_cascade:
  "(\<forall>s \<in> set (subjects (handleDeleteSubject True ident st)). subject_id s \<noteq> ident)
   \<and> find (\<lambda>s. subject_id s = ident) (subjects (handleDeleteSubject True ident st)) = None
   \<and> mset (concat (map scores (subjects st))) =
       mset (concat (map scores (subjects (handleDeleteSubject True ident st))))
       + mset (concat (map scores (filter (\<lambda>s. subject_id s = ident) (subjects st))))
   \<and> (\<forall>s \<in> set (subjects st). subject_id s \<noteq> ident
         \<longrightarrow> s \<in> set (subjects (handleDeleteSubject True ident st)))
   \<and> (view st = SubjectView ident \<longrightarrow> view (handleDeleteSubject True ident st) = Dashboard
         \<and> activeSubject (handleDeleteSubject True ident st) = None)
   \<and> (view st \<noteq> SubjectView ident \<longrightarrow> view (handleDeleteSubject True ident st) = view st)
   \<and> handleDeleteSubject False ident st = st"
proof (intro conjI)
  show "\<forall>s \<in> set (subjects (handleDeleteSubject True ident st)). subject_id s \<noteq> ident"
    by (simp add: subjects_handleDeleteSubject)
  show "find (\<lambda>s. subject_id s = ident) (subjects (handleDeleteSubject True ident st)) = None"
    by (simp add: subjects_handleDeleteSubject find_filter_None)
  show "mset (concat (map scores (subjects st))) =
       mset (concat (map scores (subjects (handleDeleteSubject True ident st))))
       + mset (concat (map scores (filter (\<lambda>s. subject_id s = ident) (subjects st))))"
    using mset_concat_partition
      [where f = scores and P = "\<lambda>s. subject_id s = ident" and xs = "subjects st"]
    by (simp add: subjects_handleDeleteSubject)
  show "\<forall>s \<in> set (subjects st). subject_id s \<noteq> ident
         \<longrightarrow> s \<in> set (subjects (handleDeleteSubject True ident st))"
    by (simp add: subjects_handleDeleteSubject)
  show "view st = SubjectView ident \<longrightarrow> view (handleDeleteSubject True ident st) = Dashboard
         \<and> activeSubject (handleDeleteSubject True ident st) = None"
    by (simp add: view_handleDeleteSubject activeSubject_def)
  show "view st \<noteq> SubjectView ident \<longrightarrow> view (handleDeleteSubject True ident st) = view st"
    by (simp add: view_handleDeleteSubject)
  show "handleDeleteSubject False ident st = st"
    by (simp add: handleDeleteSubject_def)
qed

theorem handleDeleteSubject_cascade_witness:
  "view detail_state = SubjectView ''s2''
   \<and> subjects (handleDeleteSubject True ''s2'' detail_state) =
       [mk_subject ''s1'' [mk_score ''a'' 80 100 ''2024-01-02''], mk_subject ''s3'' []]
   \<and> view (handleDeleteSubject True ''s2'' detail_state) = Dashboard
   \<and> view (handleDeleteSubject True ''s1'' detail_state) = SubjectView ''s2''"
proof -
  have "subjects (handleDeleteSubject True ''s2'' detail_state) =
       [mk_subject ''s1'' [mk_score ''a'' 80 100 ''2024-01-02''], mk_subject ''s3'' []]"
    by (simp add: handleDeleteSubject_def detail_state_def three_subjects_def mk_subject_def)
  with handleDeleteSubject_cascade [of "''s2''" detail_state]
    handleDeleteSubject_cascade [of "''s1''" detail_state]
  show ?thesis
    by (simp add: detail_state_def)
qed

lemma subjects_handleAddScore:
  assumes "view st = SubjectView subjectId"
    and "p_title (newScore st) = Some t" and "t \<noteq> []"
    and "p_value (newScore st) = Some v" and "p_max (newScore st) = Some m"
  shows "subjects (handleAddScore uuid today st) =
           map (\<lambda>s. if subject_id s = subjectId
                     then s\<lparr>scores := scores s @
                            [\<lparr>score_id = uuid, title = t, score_value = v, score_max = m,
                              date = (case p_date (newScore st) of
                                        None \<Rightarrow> today
                                      | Some d \<Rightarrow> if d = [] then today else d),
                              score_notes = p_notes (newScore st)\<rparr>]\<rparr>
                     else s) (subjects st)"
  using assms by (simp add: handleAddScore_def Let_def)

text \<open>
  Claim C9. Let a detail view be active and the score form be complete (a title that is
  not empty, a value and a maximum). Then adding the score keeps the number of
  subjects, and at every position of the list: a subject with the active identifier
  has the new score appended at the end of its scores and keeps its identifier, name
  and colour; any other subject is unchanged.
\<close>

theorem handleAddScore_frame:
  assumes "view st = SubjectView subjectId"
    and "p_title (newScore st) = Some t" and "t \<noteq> []"
    and "p_value (newScore st) = Some v" and "p_max (newScore st) = Some m"
    and "i < length (subjects st)"
  shows "length (subjects (handleAddScore uuid today st)) = length (subjects st)
    \<and> (subject_id (subjects st ! i) = subjectId \<longrightarrow>
         scores (subjects (handleAddScore uuid today st) ! i) =
           scores (subjects st ! i) @
             [\<lparr>score_id = uuid, title = t, score_value = v, score_max = m,
               date = (case p_date (newScore st) of
                         None \<Rightarrow> today
                       | Some d \<Rightarrow> if d = [] then today else d),
               score_notes = p_notes (newScore st)\<rparr>]
         \<and> subject_id (subjects (handleAddScore uuid today st) ! i) = subject_id (subjects st ! i)
         \<and> name (subjects (handleAddScore uuid today st) ! i) = name (subjects st ! i)
         \<and> color (subjects (handleAddScore uuid today st) ! i) = color (subjects st ! i))
    \<and> (subject_id (subjects st ! i) \<noteq> subjectId \<longrightarrow>
         subjects (handleAddScore uuid today st) ! i = subjects st ! i)"
  using assms(6) by (simp add: subjects_handleAddScore [OF assms(1-5)])

theorem handleAddScore_frame_witness:
  "subjects (handleAddScore ''u7'' ''2024-03-01'' detail_state) ! 0 = three_subjects ! 0
   \<and> scores (subjects (handleAddScore ''u7'' ''2024-03-01'' detail_state) ! 1) =
       [mk_score ''b'' 30 50 ''2024-01-03'',
        \<lparr>score_id = ''u7'', title = ''Midterm'', score_value = 17, score_max = 20,
         date = ''2024-02-01'', score_notes = None\<rparr>]
   \<and> subject_id (subjects (handleAddScore ''u7'' ''2024-03-01'' detail_state) ! 1) = ''s2''
   \<and> length (subjects (handleAddScore ''u7'' ''2024-03-01'' detail_state)) = 3"
proof -
  have h: "view detail_state = SubjectView ''s2''"
    "p_title (newScore detail_state) = Some ''Midterm''" "''Midterm'' \<noteq> []"
    "p_value (newScore detail_state) = Some 17" "p_max (newScore detail_state) = Some 20"
    by (simp_all add: detail_state_def)
  have l: "(0::nat) < length (subjects detail_state)" "(1::nat) < length (subjects detail_state)"
    by (simp_all add: detail_state_def three_subjects_def)
  have s: "subject_id (subjects detail_state ! 0) \<noteq> ''s2''"
    "subject_id (subjects detail_state ! 1) = ''s2''"
    by (simp_all add: detail_state_def three_subjects_def mk_subject_def)
  from s handleAddScore_frame [OF h l(1), of "''u7''" "''2024-03-01''"]
    handleAddScore_frame [OF h l(2), of "''u7''" "''2024-03-01''"]
  show ?thesis
    by (simp add: detail_state_def three_subjects_def mk_subject_def)
qed

lemma filter_map_scores_id:
  assumes "\<forall>s \<in> set subjs. subject_id s = subjectId \<longrightarrow> scoreId \<notin> score_id ` set (scores s)"
  shows "map (\<lambda>s. if subject_id s = subjectId
                    then s\<lparr>scores := filter (\<lambda>sc. score_id sc \<noteq> scoreId) (scores s)\<rparr>
                    else s) subjs = subjs"
proof -
  have "\<And>s. s \<in> set subjs \<Longrightarrow> subject_id s = subjectId \<Longrightarrow>
          filter (\<lambda>sc. score_id sc \<noteq> scoreId) (scores s) = scores s"
    using assms by (auto simp: filter_id_conv)
  then show ?thesis
    by (simp add: map_idI)
qed

text \<open>
  Claim C10. Deleting a subject whose identifier no subject of the store has leaves the
  subject list as it was, whatever the answer to the confirmation. Deleting a score
  with a pair of identifiers such that no subject with the first has a score with the
  second (the subject is absent, or it has no such score) returns the state unchanged.
  Both handlers are total: neither has a path that raises.
\<close>

theorem delete_absent_is_noop:
  "(ident \<notin> subject_id ` set (subjects st)
      \<longrightarrow> subjects (handleDeleteSubject confirmed ident st) = subjects st)
   \<and> ((\<forall>s \<in> set (subjects st). subject_id s = subjectId \<longrightarrow> scoreId \<notin> score_id ` set (scores s))
      \<longrightarrow> handleDeleteScore subjectId scoreId st = st)"
proof (intro conjI impI)
  assume "ident \<notin> subject_id ` set (subjects st)"
  then have absent: "\<forall>s \<in> set (subjects st). subject_id s \<noteq> ident"
    by auto
  show "subjects (handleDeleteSubject confirmed ident st) = subjects st"
  proof (cases confirmed)
    case True
    with absent show ?thesis
      by (simp add: subjects_handleDeleteSubject filter_id_conv)
  next
    case False
    then show ?thesis
      by (simp add: handleDeleteSubject_def)
  qed
next
  assume "\<forall>s \<in> set (subjects st). subject_id s = subjectId \<longrightarrow> scoreId \<notin> score_id ` set (scores s)"
  then show "handleDeleteScore subjectId scoreId st = st"
    by (simp add: handleDeleteScore_def filter_map_scores_id)
qed

theorem delete_absent_is_noop_witness:
  "subjects (handleDeleteSubject True ''s7'' detail_state) = three_subjects
   \<and> handleDeleteScore ''s7'' ''a'' detail_state = detail_state
   \<and> handleDeleteScore ''s1'' ''b'' detail_state = detail_state"
proof -
  have h1: "''s7'' \<notin> subject_id ` set (subjects detail_state)"
    by (simp add: detail_state_def three_subjects_def mk_subject_def)
  have h2: "\<forall>s \<in> set (subjects detail_state).
              subject_id s = ''s7'' \<longrightarrow> ''a'' \<notin> score_id ` set (scores s)"
    by (simp add: detail_state_def three_subjects_def mk_subject_def)
  have h3: "\<forall>s \<in> set (subjects detail_state).
              subject_id s = ''s1'' \<longrightarrow> ''b'' \<notin> score_id ` set (scores s)"
    by (simp add: detail_state_def three_subjects_def mk_subject_def mk_score_def)
  from h1 h2 h3 delete_absent_is_noop [of "''s7''" detail_state True "''s7''" "''a''"]
    delete_absent_is_noop [of "''s7''" detail_state True "''s1''" "''b''"]
  show ?thesis
    by (simp add: detail_state_def)
qed

section \<open>The score history is shown newest first\<close>

lemma mset_insert_by: "mset (insert_by cmp x xs) = add_mset x (mset xs)"
  by (induction xs) simp_all

lemma set_insert_by: "set (insert_by cmp x xs) = insert x (set xs)"
  by (induction xs) auto

lemma mset_Array_sort: "mset (Array_sort cmp xs) = mset xs"
  by (induction xs) (simp_all add: Array_sort_def mset_insert_by)

lemma newest_first_insert_by:
  assumes "sorted_wrt (\<lambda>a b. k b \<le> k a) xs"
  shows "sorted_wrt (\<lambda>a b. k b \<le> k a) (insert_by (\<lambda>a b. k b - k a) x xs)"
  using assms
proof (induction xs)
  case Nil
  then show ?case by simp
next
  case (Cons y ys)
  show ?case
  proof (cases "k y - k x \<le> 0")
    case True
    with Cons.prems show ?thesis
      by auto
  next
    case False
    with Cons show ?thesis
      by (auto simp: set_insert_by)
  qed
qed

lemma newest_first_Array_sort:
  "sorted_wrt (\<lambda>a b. k b \<le> k a) (Array_sort (\<lambda>a b. k b - k a) xs)"
proof (induction xs)
  case Nil
  show ?case by (simp add: Array_sort_def)
next
  case (Cons x xs)
  then show ?case
    using newest_first_insert_by [of k "Array_sort (\<lambda>a b. k b - k a) xs" x]
    by (simp add: Array_sort_def)
qed

lemma mset_renderScoreHistory: "mset (renderScoreHistory getTime subj) = mset (scores subj)"
  by (simp add: renderScoreHistory_def mset_Array_sort)

lemma newest_first_renderScoreHistory:
  "sorted_wrt (\<lambda>a b. getTime (date b) \<le> getTime (date a)) (renderScoreHistory getTime subj)"
  using newest_first_Array_sort [of "\<lambda>s. getTime (date s)" "scores subj"]
  by (simp add: renderScoreHistory_def)

lemma descending_keys_unique:
  fixes k :: "'a \<Rightarrow> int"
  assumes "sorted_wrt (\<lambda>a b. k b \<le> k a) xs" and "mset xs = mset ys"
  shows "rev (map k xs) = sort (map k ys)"
proof -
  have s: "sorted (rev (map k xs))"
    using assms(1) by (simp add: sorted_wrt_rev sorted_wrt_map flip: rev_map)
  have m: "mset (rev (map k xs)) = mset (map k ys)"
    using assms(2) by (metis mset_map mset_rev)
  from properties_for_sort [OF m s] show ?thesis
    by simp
qed

text \<open>
  Claim C6. The rows of the score history are the subject's scores, each once, and every
  row's date is at least as late as the dates of the rows below it. The order the scores
  were added in does not matter: two subjects holding the same scores in any two orders
  show the same sequence of dates.
\<close>

theorem renderScoreHistory_newest_first:
  "sorted_wrt (\<lambda>a b. getTime (date b) \<le> getTime (date a)) (renderScoreHistory getTime subj)
   \<and> mset (renderScoreHistory getTime subj) = mset (scores subj)
   \<and> (mset (scores subj') = mset (scores subj) \<longrightarrow>
        map (\<lambda>s. getTime (date s)) (renderScoreHistory getTime subj') =
        map (\<lambda>s. getTime (date s)) (renderScoreHistory getTime subj))"
proof (intro conjI impI)
  show "sorted_wrt (\<lambda>a b. getTime (date b) \<le> getTime (date a)) (renderScoreHistory getTime subj)"
    by (rule newest_first_renderScoreHistory)
  show "mset (renderScoreHistory getTime subj) = mset (scores subj)"
    by (rule mset_renderScoreHistory)
next
  assume same: "mset (scores subj') = mset (scores subj)"
  let ?k = "\<lambda>s. getTime (date s)"
  have "rev (map ?k (renderScoreHistory getTime subj')) = sort (map ?k (scores subj))"
    using newest_first_renderScoreHistory [of getTime subj']
      mset_renderScoreHistory [of getTime subj'] same
    by (intro descending_keys_unique) simp_all
  moreover have "rev (map ?k (renderScoreHistory getTime subj)) = sort (map ?k (scores subj))"
    using newest_first_renderScoreHistory [of getTime subj]
      mset_renderScoreHistory [of getTime subj]
    by (intro descending_keys_unique) simp_all
  ultimately have "rev (map ?k (renderScoreHistory getTime subj')) =
      rev (map ?k (renderScoreHistory getTime subj))"
    by simp
  then show "map ?k (renderScoreHistory getTime subj') = map ?k (renderScoreHistory getTime subj)"
    by simp
qed

theorem renderScoreHistory_newest_first_witness:
  "map date (renderScoreHistory iso_day_number unordered_subject) =
     [''2024-03-01'', ''2024-01-15'', ''2023-12-31'']
   \<and> map date (renderScoreHistory iso_day_number
                  (unordered_subject\<lparr>scores := rev (scores unordered_subject)\<rparr>)) =
     [''2024-03-01'', ''2024-01-15'', ''2023-12-31'']"
proof -
  have m: "mset (scores (unordered_subject\<lparr>scores := rev (scores unordered_subject)\<rparr>)) =
      mset (scores unordered_subject)"
    by simp
  have a: "map date (renderScoreHistory iso_day_number unordered_subject) =
      [''2024-03-01'', ''2024-01-15'', ''2023-12-31'']"
    by code_simp
  have b: "map date (renderScoreHistory iso_day_number
                       (unordered_subject\<lparr>scores := rev (scores unordered_subject)\<rparr>)) =
      [''2024-03-01'', ''2024-01-15'', ''2023-12-31'']"
    by code_simp
  from m a b renderScoreHistory_newest_first
    [of iso_day_number unordered_subject "unordered_subject\<lparr>scores := rev (scores unordered_subject)\<rparr>"]
  show ?thesis by simp
qed

section \<open>Properties of the insight requester\<close>

text \<open>
  Claim C3, as the code has it. When no subject has a score no prompt is sent to the
  service. The credential is examined before the subjects are: with a credential the
  result is the placeholder insight, without one it is the insight that reports the
  missing key.
\<close>

theorem generateAcademicInsight_no_scores:
  assumes "\<forall>s \<in> set subjs. scores s = []"
  shows "snd (generateAcademicInsight env subjs) = []
         \<and> fst (generateAcademicInsight env subjs) =
             Inr (if apiKey env = [] then api_key_missing_insight else no_data_insight)"
  using assms by (simp add: generateAcademicInsight_def Let_def filter_empty_conv)

theorem generateAcademicInsight_no_scores_witness:
  "generateAcademicInsight env_offline [mk_subject ''s3'' []] = (Inr no_data_insight, [])
   \<and> generateAcademicInsight env_no_key [mk_subject ''s3'' []] = (Inr api_key_missing_insight, [])"
proof -
  have h: "\<forall>s \<in> set [mk_subject ''s3'' []]. scores s = []"
    by (simp add: mk_subject_def)
  have k: "apiKey env_offline \<noteq> []" "apiKey env_no_key = []"
    by (simp_all add: env_offline_def env_no_key_def)
  from k generateAcademicInsight_no_scores [OF h, of env_offline]
    generateAcademicInsight_no_scores [OF h, of env_no_key]
  show ?thesis
    by (simp add: prod_eq_iff)
qed

text \<open>
  Claim C3 as it is worded fails without a credential: for a store whose only subject
  has no score the result is not the placeholder insight.
\<close>

theorem generateAcademicInsight_no_key_counterexample:
  "filter (\<lambda>s. scores s \<noteq> []) [mk_subject ''s3'' []] = []
   \<and> fst (generateAcademicInsight env_no_key [mk_subject ''s3'' []]) \<noteq> Inr no_data_insight"
  by (simp add: generateAcademicInsight_def env_no_key_def mk_subject_def
      api_key_missing_insight_def no_data_insight_def)

lemma generateAcademicInsight_sent:
  assumes "p \<in> set (snd (generateAcademicInsight env subjs))"
  shows "fst (generateAcademicInsight env subjs) =
           (case tryRequest env p of Inr insight \<Rightarrow> Inr insight | Inl error \<Rightarrow> Inr fallback_insight)"
  using assms by (simp add: generateAcademicInsight_def Let_def split: if_splits)

text \<open>
  Claim C4. Without a credential the requester returns the fixed insight that reports
  the missing key and sends nothing. When a prompt was sent and the call was rejected,
  or the response carried no text, or \<^verbatim>\<open>JSON.parse\<close> threw on the text, it returns the
  fixed fallback insight. In no case is the promise rejected: the result is never an
  error.
\<close>

theorem generateAcademicInsight_never_rejects:
  "(apiKey env = [] \<longrightarrow> generateAcademicInsight env subjs = (Inr api_key_missing_insight, []))
   \<and> (p \<in> set (snd (generateAcademicInsight env subjs)) \<and> generateContent env p = Inl e
        \<longrightarrow> fst (generateAcademicInsight env subjs) = Inr fallback_insight)
   \<and> (p \<in> set (snd (generateAcademicInsight env subjs))
        \<and> (generateContent env p = Inr None \<or> generateContent env p = Inr (Some []))
        \<longrightarrow> fst (generateAcademicInsight env subjs) = Inr fallback_insight)
   \<and> (p \<in> set (snd (generateAcademicInsight env subjs)) \<and> generateContent env p = Inr (Some text)
        \<and> JSON_parse env text = Inl e
        \<longrightarrow> fst (generateAcademicInsight env subjs) = Inr fallback_insight)
   \<and> \<not> isl (fst (generateAcademicInsight env subjs))"
proof (intro conjI impI)
  show "generateAcademicInsight env subjs = (Inr api_key_missing_insight, [])" if "apiKey env = []"
    using that by (simp add: generateAcademicInsight_def)
  show "fst (generateAcademicInsight env subjs) = Inr fallback_insight"
    if "p \<in> set (snd (generateAcademicInsight env subjs)) \<and> generateContent env p = Inl e"
    using that generateAcademicInsight_sent [of p env subjs] by (simp add: tryRequest_def)
  show "fst (generateAcademicInsight env subjs) = Inr fallback_insight"
    if "p \<in> set (snd (generateAcademicInsight env subjs))
        \<and> (generateContent env p = Inr None \<or> generateContent env p = Inr (Some []))"
    using that generateAcademicInsight_sent [of p env subjs] by (auto simp: tryRequest_def)
  show "fst (generateAcademicInsight env subjs) = Inr fallback_insight"
    if "p \<in> set (snd (generateAcademicInsight env subjs)) \<and> generateContent env p = Inr (Some text)
        \<and> JSON_parse env text = Inl e"
    using that generateAcademicInsight_sent [of p env subjs] by (simp add: tryRequest_def)
  show "\<not> isl (fst (generateAcademicInsight env subjs))"
    by (simp add: generateAcademicInsight_def Let_def split: sum.split)
qed

theorem generateAcademicInsight_never_rejects_witness:
  "generateAcademicInsight env_no_key three_subjects = (Inr api_key_missing_insight, [])
   \<and> fst (generateAcademicInsight env_offline three_subjects) = Inr fallback_insight
   \<and> fst (generateAcademicInsight env_silent three_subjects) = Inr fallback_insight
   \<and> fst (generateAcademicInsight env_garbled three_subjects) = Inr fallback_insight
   \<and> snd (generateAcademicInsight env_offline three_subjects) = [sent_prompt]"
proof -
  have k: "apiKey env_no_key = []"
    by (simp add: env_no_key_def)
  have o: "snd (generateAcademicInsight env_offline three_subjects) = [sent_prompt]"
    by (simp add: generateAcademicInsight_def env_offline_def three_subjects_def mk_subject_def
        mk_score_def sent_prompt_def Let_def)
  have s: "snd (generateAcademicInsight env_silent three_subjects) = [sent_prompt]"
    by (simp add: generateAcademicInsight_def env_silent_def three_subjects_def mk_subject_def
        mk_score_def sent_prompt_def Let_def)
  have g: "snd (generateAcademicInsight env_garbled three_subjects) = [sent_prompt]"
    by (simp add: generateAcademicInsight_def env_garbled_def three_subjects_def mk_subject_def
        mk_score_def sent_prompt_def Let_def)
  have r: "generateContent env_offline sent_prompt = Inl (ApiError ''fetch failed'')"
    "generateContent env_silent sent_prompt = Inr None"
    "generateContent env_garbled sent_prompt = Inr (Some ''<html>'')"
    "JSON_parse env_garbled ''<html>'' = Inl (SyntaxError ''Unexpected token'')"
    by (simp_all add: env_offline_def env_silent_def env_garbled_def offline_service_def
        silent_service_def garbled_service_def rejecting_parse_def)
  from k o s g r
    generateAcademicInsight_never_rejects [of env_no_key three_subjects]
    generateAcademicInsight_never_rejects
      [of env_offline three_subjects sent_prompt "ApiError ''fetch failed''"]
    generateAcademicInsight_never_rejects [of env_silent three_subjects sent_prompt]
    generateAcademicInsight_never_rejects
      [of env_garbled three_subjects sent_prompt "SyntaxError ''Unexpected token''" "''<html>''"]
  show ?thesis
    by simp
qed

end
